theory Spec2Isabelle
  imports Main "HOL-Library.AList"
begin

section \<open>Common data: exceptions, users, contacts\<close>

text \<open>
  The exceptions that leave the service functions. \<open>HTTPException\<close> carries the status
  code, the detail message and the response headers (\<open>[]\<close> where the source passes none).
  \<open>KeyError\<close> is Python's error of a dictionary subscript \<open>d[k]\<close> on a missing key.
\<close>

datatype exn =
    HTTPException (status_code: nat) (detail: string) (headers: "(string \<times> string) list")
  | KeyError string

text \<open>
  Modelled from the spec: the \<open>User\<close> row of \<open>src/database/models\<close> is not among the
  sources; section 3 gives a unique username, a unique email, a password hash and a
  verification flag. \<open>uid\<close> is the primary key the contacts refer to.
\<close>

record User =
  uid :: int
  user_username :: string
  user_email :: string
  password_hash :: string
  confirmed :: bool

text \<open>
  Modelled from the spec: the request body \<open>ContactModel\<close> of \<open>src/schemas\<close> and the
  \<open>Contact\<close> row are not among the sources; section 3 gives name, surname, email, phone,
  birthday and free-form notes, and an owning user. The source reads \<open>body.email\<close> and
  \<open>body.phone\<close>.
\<close>

record ContactModel =
  name :: string
  surname :: string
  email :: string
  phone :: string
  birthday :: string
  contact_notes :: string

record Contact = ContactModel +
  contact_id :: int
  user_id :: int

section \<open>The contact service (src/services/contacts.py)\<close>

text \<open>
  \<open>ContactService.__init__\<close> builds a \<open>ContactRepository\<close> over the database session.
  The repository class is not among the sources, so the service takes it as a parameter:
  one function per repository method the service calls. Every call runs against the
  session state \<open>'db\<close> and returns the state it leaves behind, so that a call that is
  made and a call that is not made can be told apart.
\<close>

record 'db ContactRepository =
  is_contact_exists :: "string \<Rightarrow> string \<Rightarrow> User \<Rightarrow> 'db \<Rightarrow> bool \<times> 'db"
  repo_create_contact :: "ContactModel \<Rightarrow> User \<Rightarrow> 'db \<Rightarrow> Contact \<times> 'db"
  get_contact_by_id :: "int \<Rightarrow> User \<Rightarrow> 'db \<Rightarrow> Contact option \<times> 'db"
  repo_update_contact :: "int \<Rightarrow> ContactModel \<Rightarrow> User \<Rightarrow> 'db \<Rightarrow> Contact option \<times> 'db"
  repo_remove_contact :: "int \<Rightarrow> User \<Rightarrow> 'db \<Rightarrow> Contact option \<times> 'db"

text \<open>
  The f-string of the 400 response:
  \<^verbatim>\<open>f"Contact with '{body.email}' email or '{body.phone}' phone number already exists."\<close>
\<close>

definition duplicate_detail :: "ContactModel \<Rightarrow> string" where
  "duplicate_detail body =
     ''Contact with '' @ [CHR 0x27] @ email body @ [CHR 0x27] @ '' email or '' @
     [CHR 0x27] @ phone body @ [CHR 0x27] @ '' phone number already exists.''"

definition DuplicateContact :: "ContactModel \<Rightarrow> exn" where
  "DuplicateContact body = HTTPException 400 (duplicate_detail body) []"

definition ContactNotFound :: exn where
  "ContactNotFound = HTTPException 404 ''Contact not found'' []"

definition create_contact ::
  "'db ContactRepository \<Rightarrow> ContactModel \<Rightarrow> User \<Rightarrow> 'db \<Rightarrow> (exn + Contact) \<times> 'db" where
  "create_contact repository body user db =
     (case is_contact_exists repository (email body) (phone body) user db of
        (found, db1) \<Rightarrow>
          if found then (Inl (DuplicateContact body), db1)
          else (case repo_create_contact repository body user db1 of
                  (contact, db2) \<Rightarrow> (Inr contact, db2)))"

definition get_contact ::
  "'db ContactRepository \<Rightarrow> int \<Rightarrow> User \<Rightarrow> 'db \<Rightarrow> (exn + Contact) \<times> 'db" where
  "get_contact repository cid user db =
     (case get_contact_by_id repository cid user db of
        (None, db1) \<Rightarrow> (Inl ContactNotFound, db1)
      | (Some contact, db1) \<Rightarrow> (Inr contact, db1))"

definition update_contact ::
  "'db ContactRepository \<Rightarrow> int \<Rightarrow> ContactModel \<Rightarrow> User \<Rightarrow> 'db \<Rightarrow> (exn + Contact) \<times> 'db" where
  "update_contact repository cid body user db =
     (case repo_update_contact repository cid body user db of
        (None, db1) \<Rightarrow> (Inl ContactNotFound, db1)
      | (Some updated_contact, db1) \<Rightarrow> (Inr updated_contact, db1))"

definition remove_contact ::
  "'db ContactRepository \<Rightarrow> int \<Rightarrow> User \<Rightarrow> 'db \<Rightarrow> (exn + Contact) \<times> 'db" where
  "remove_contact repository cid user db =
     (case repo_remove_contact repository cid user db of
        (None, db1) \<Rightarrow> (Inl ContactNotFound, db1)
      | (Some deleted_contact, db1) \<Rightarrow> (Inr deleted_contact, db1))"

subsection \<open>A repository over a table of contacts\<close>

text \<open>
  Modelled from the spec: \<open>src/repository/contacts.py\<close> is not among the sources. Sections
  4.4 and 6 describe it: \<open>is_contact_exists(email, phone, user) -> bool\<close> finds a contact
  with the same email OR the same phone for this user; create, get, update and remove are
  scoped to the owning user, and the last three answer nothing for a wrong id or a wrong
  owner. The table is the list of rows; a new row gets the next free id.
\<close>

type_synonym table = "Contact list"

definition owned_by :: "User \<Rightarrow> Contact \<Rightarrow> bool" where
  "owned_by user c = (user_id c = uid user)"

definition next_id :: "table \<Rightarrow> int" where
  "next_id db = fold max (map contact_id db) 0 + 1"

definition make_contact :: "ContactModel \<Rightarrow> int \<Rightarrow> int \<Rightarrow> Contact" where
  "make_contact body cid owner =
     \<lparr>name = name body, surname = surname body, email = email body, phone = phone body,
      birthday = birthday body, contact_notes = contact_notes body, contact_id = cid, user_id = owner\<rparr>"

definition table_is_contact_exists :: "string \<Rightarrow> string \<Rightarrow> User \<Rightarrow> table \<Rightarrow> bool \<times> table" where
  "table_is_contact_exists e p user db =
     (list_ex (\<lambda>c. owned_by user c \<and> (email c = e \<or> phone c = p)) db, db)"

definition table_create_contact :: "ContactModel \<Rightarrow> User \<Rightarrow> table \<Rightarrow> Contact \<times> table" where
  "table_create_contact body user db =
     (let contact = make_contact body (next_id db) (uid user) in (contact, db @ [contact]))"

definition table_get_contact_by_id :: "int \<Rightarrow> User \<Rightarrow> table \<Rightarrow> Contact option \<times> table" where
  "table_get_contact_by_id cid user db =
     (find (\<lambda>c. contact_id c = cid \<and> owned_by user c) db, db)"

definition table_update_contact ::
  "int \<Rightarrow> ContactModel \<Rightarrow> User \<Rightarrow> table \<Rightarrow> Contact option \<times> table" where
  "table_update_contact cid body user db =
     (case find (\<lambda>c. contact_id c = cid \<and> owned_by user c) db of
        None \<Rightarrow> (None, db)
      | Some c \<Rightarrow>
          (let c' = make_contact body cid (user_id c)
           in (Some c', map (\<lambda>r. if contact_id r = cid \<and> owned_by user r then c' else r) db)))"

definition table_remove_contact :: "int \<Rightarrow> User \<Rightarrow> table \<Rightarrow> Contact option \<times> table" where
  "table_remove_contact cid user db =
     (case find (\<lambda>c. contact_id c = cid \<and> owned_by user c) db of
        None \<Rightarrow> (None, db)
      | Some c \<Rightarrow> (Some c, filter (\<lambda>r. \<not> (contact_id r = cid \<and> owned_by user r)) db))"

definition table_repository :: "table ContactRepository" where
  "table_repository =
     \<lparr>is_contact_exists = table_is_contact_exists,
      repo_create_contact = table_create_contact,
      get_contact_by_id = table_get_contact_by_id,
      repo_update_contact = table_update_contact,
      repo_remove_contact = table_remove_contact\<rparr>"

text \<open>Concrete users and bodies for the worked examples.\<close>

definition alice :: User where
  "alice = \<lparr>uid = 1, user_username = ''alice'', user_email = ''alice@x.com'',
            password_hash = ''h1'', confirmed = True\<rparr>"

definition bob :: User where
  "bob = \<lparr>uid = 2, user_username = ''bob'', user_email = ''bob@x.com'',
          password_hash = ''h2'', confirmed = True\<rparr>"

definition body_a111 :: ContactModel where
  "body_a111 = \<lparr>name = ''Ann'', surname = ''Lee'', email = ''a@x.com'', phone = ''111'',
                birthday = ''2000-01-01'', contact_notes = ''''\<rparr>"

definition body_a222 :: ContactModel where
  "body_a222 = body_a111\<lparr>phone := ''222''\<rparr>"

definition body_b111 :: ContactModel where
  "body_b111 = body_a111\<lparr>email := ''b@x.com''\<rparr>"

definition contact_a111 :: Contact where
  "contact_a111 = make_contact body_a111 1 1"

text \<open>A repository whose create empties the table: a call of it never goes unnoticed.\<close>

definition wipe_and_create :: "ContactModel \<Rightarrow> User \<Rightarrow> table \<Rightarrow> Contact \<times> table" where
  "wipe_and_create body user db = (make_contact body 0 (uid user), [])"

section \<open>Token service and auth gate (src/services/auth.py)\<close>

subsection \<open>Claims, dictionaries on the heap, clock and settings\<close>

text \<open>
  A claims dictionary holds JSON scalars; Python's \<open>None\<close> is \<open>JNull\<close>. A \<open>datetime\<close> is
  represented by its unix timestamp in whole seconds, which is what a token carries in
  \<open>exp\<close> and \<open>iat\<close> (section 6: \<open>exp: unix_timestamp\<close>), so \<open>timedelta(seconds=n)\<close> is
  \<open>n\<close> and \<open>timedelta(days=n)\<close> is \<open>n * 86400\<close>. Every call of
  \<open>datetime.now(timezone.utc)\<close> is a reading of the clock and is a parameter of the
  function that makes it, one parameter per call, in program order. The integers are
  unbounded: the model covers the readings and offsets for which Python's \<open>datetime\<close>
  arithmetic stays within its range (years 1 to 9999), beyond which the source raises
  \<open>OverflowError\<close> before any token is made.
\<close>

datatype jvalue = JNull | JBool bool | JInt int | JStr string

text \<open>A Python \<open>dict\<close> keeps insertion order; assigning to a present key keeps its place.\<close>

type_synonym dict = "(string \<times> jvalue) list"

text \<open>
  Dictionaries are objects: a variable holds a reference, and \<open>data.copy()\<close> and
  \<open>to_encode.update(...)\<close> act on the object store. The store is the list of the objects
  allocated so far; a reference is an index into it, and a fresh object goes to the end.
\<close>

type_synonym addr = nat
type_synonym heap = "dict list"

definition dict_copy :: "addr \<Rightarrow> heap \<Rightarrow> addr \<times> heap" where
  "dict_copy a h = (length h, h @ [h ! a])"

definition dict_update :: "addr \<Rightarrow> dict \<Rightarrow> heap \<Rightarrow> heap" where
  "dict_update a kvs h = h[a := fold (\<lambda>(k, v). AList.update k v) kvs (h ! a)]"

definition timedelta_seconds :: "int \<Rightarrow> int" where
  "timedelta_seconds n = n"

definition timedelta_days :: "int \<Rightarrow> int" where
  "timedelta_days n = n * 86400"

text \<open>The truth value Python gives an \<open>Optional[int]\<close> in \<open>if expires_delta:\<close>.\<close>

fun truthy :: "int option \<Rightarrow> bool" where
  "truthy None = False"
| "truthy (Some n) = (n \<noteq> 0)"

text \<open>
  \<open>src/conf/config.py\<close> is not among the sources; the three settings the token service
  reads are a parameter.
\<close>

record Settings =
  JWT_SECRET :: string
  JWT_ALGORITHM :: string
  JWT_EXPIRATION_SECONDS :: int

subsection \<open>The JWT codec\<close>

text \<open>
  Modelled from the spec: \<open>jwt.encode\<close> and \<open>jwt.decode\<close> belong to the JOSE library the
  source imports and are not among the sources. Section 4.2: issuing signs the claims with
  the secret and the algorithm; \<open>decode(token) -> claims\<close> verifies signature and expiry
  and fails if the signature is invalid, the token malformed, or expired. The signature is
  symbolic: it records the key, the algorithm and the claims it was made over, and it
  verifies exactly when all three are the ones presented. A bearer string that is not a
  token at all is \<open>Malformed\<close>. A token without \<open>exp\<close> has no expiry to verify.
\<close>

datatype jws_signature = Signed string string dict

datatype token =
    Malformed string
  | JWT (jwt_alg: string) (jwt_claims: dict) (jwt_signature: jws_signature)

datatype jwt_error = MalformedToken | InvalidSignature | ExpiredSignature | InvalidClaims

definition jwt_encode :: "dict \<Rightarrow> string \<Rightarrow> string \<Rightarrow> token" where
  "jwt_encode claims key algorithm = JWT algorithm claims (Signed key algorithm claims)"

fun jwt_decode :: "token \<Rightarrow> string \<Rightarrow> string list \<Rightarrow> int \<Rightarrow> jwt_error + dict" where
  "jwt_decode (Malformed s) key algorithms now = Inl MalformedToken"
| "jwt_decode (JWT alg claims sg) key algorithms now =
     (if alg \<notin> set algorithms then Inl InvalidSignature
      else if sg \<noteq> Signed key alg claims then Inl InvalidSignature
      else (case map_of claims ''exp'' of
              None \<Rightarrow> Inr claims
            | Some (JInt e) \<Rightarrow> if e < now then Inl ExpiredSignature else Inr claims
            | Some _ \<Rightarrow> Inl InvalidClaims))"

subsection \<open>The user directory\<close>

text \<open>
  Modelled from the spec: \<open>UserService\<close> of \<open>src/services/users.py\<close> is not among the
  sources. Section 6: \<open>get_user_by_username(username) -> User | none\<close>. The gate takes the
  lookup as a parameter; \<open>users_by_username\<close> is the lookup over a list of user rows,
  which finds no user for a subject that is not a string.
\<close>

type_synonym user_directory = "jvalue \<Rightarrow> User option"

fun users_by_username :: "User list \<Rightarrow> user_directory" where
  "users_by_username users (JStr n) = find (\<lambda>u. user_username u = n) users"
| "users_by_username users v = None"

subsection \<open>create_access_token\<close>

definition create_access_token ::
  "Settings \<Rightarrow> int \<Rightarrow> addr \<Rightarrow> int option \<Rightarrow> heap \<Rightarrow> token \<times> heap" where
  "create_access_token settings now data expires_delta h =
     (case dict_copy data h of
        (to_encode, h1) \<Rightarrow>
          (let expire =
                 (if truthy expires_delta
                  then now + timedelta_seconds (the expires_delta)
                  else now + timedelta_seconds (JWT_EXPIRATION_SECONDS settings));
               h2 = dict_update to_encode [(''exp'', JInt expire)] h1;
               encoded_jwt = jwt_encode (h2 ! to_encode) (JWT_SECRET settings)
                               (JWT_ALGORITHM settings)
           in (encoded_jwt, h2)))"

subsection \<open>get_current_user\<close>

definition credentials_exception :: exn where
  "credentials_exception =
     HTTPException 401 ''Could not validate credentials'' [(''WWW-Authenticate'', ''Bearer'')]"

text \<open>
  \<open>now\<close> is the clock reading the decoder checks the expiry against. Inside the \<open>try\<close>,
  \<open>payload["sub"]\<close> raises \<open>KeyError\<close> on a payload without the key; the handler is
  \<open>except JWTError\<close>, so neither that \<open>KeyError\<close> nor the \<open>HTTPException\<close> raised for a
  \<open>None\<close> subject is caught by it.
\<close>

definition get_current_user :: "Settings \<Rightarrow> int \<Rightarrow> user_directory \<Rightarrow> token \<Rightarrow> exn + User" where
  "get_current_user settings now get_user_by_username token =
     (case jwt_decode token (JWT_SECRET settings) [JWT_ALGORITHM settings] now of
        Inl jwt_err \<Rightarrow> Inl credentials_exception
      | Inr payload \<Rightarrow>
          (case map_of payload ''sub'' of
             None \<Rightarrow> Inl (KeyError ''sub'')
           | Some username \<Rightarrow>
               if username = JNull then Inl credentials_exception
               else (case get_user_by_username username of
                       None \<Rightarrow> Inl credentials_exception
                     | Some user \<Rightarrow> Inr user)))"

subsection \<open>create_email_token\<close>

text \<open>
  The source reads the clock twice: \<open>now_expire\<close> is the reading in the line that computes
  \<open>expire\<close>, \<open>now_iat\<close> the later one inside the \<open>update\<close> call.
\<close>

definition create_email_token ::
  "Settings \<Rightarrow> int \<Rightarrow> int \<Rightarrow> addr \<Rightarrow> heap \<Rightarrow> token \<times> heap" where
  "create_email_token settings now_expire now_iat data h =
     (case dict_copy data h of
        (to_encode, h1) \<Rightarrow>
          (let expire = now_expire + timedelta_days 7;
               h2 = dict_update to_encode [(''iat'', JInt now_iat), (''exp'', JInt expire)] h1;
               token = jwt_encode (h2 ! to_encode) (JWT_SECRET settings) (JWT_ALGORITHM settings)
           in (token, h2)))"

subsection \<open>get_email_from_token\<close>

text \<open>The detail message of the 422 response, a Ukrainian sentence, as its UTF-8 bytes.\<close>

definition invalid_email_token_detail :: string where
  "invalid_email_token_detail = map char_of
     [0xD0, 0x9D, 0xD0, 0xB5, 0xD0, 0xBF, 0xD1, 0x80, 0xD0, 0xB0, 0xD0, 0xB2, 0xD0, 0xB8,
      0xD0, 0xBB, 0xD1, 0x8C, 0xD0, 0xBD, 0xD0, 0xB8, 0xD0, 0xB9, 0x20, 0xD1, 0x82, 0xD0,
      0xBE, 0xD0, 0xBA, 0xD0, 0xB5, 0xD0, 0xBD, 0x20, 0xD0, 0xB4, 0xD0, 0xBB, 0xD1, 0x8F,
      0x20, 0xD0, 0xBF, 0xD0, 0xB5, 0xD1, 0x80, 0xD0, 0xB5, 0xD0, 0xB2, 0xD1, 0x96, 0xD1,
      0x80, 0xD0, 0xBA, 0xD0, 0xB8, 0x20, 0xD0, 0xB5, 0xD0, 0xBB, 0xD0, 0xB5, 0xD0, 0xBA,
      0xD1, 0x82, 0xD1, 0x80, 0xD0, 0xBE, 0xD0, 0xBD, 0xD0, 0xBD, 0xD0, 0xBE, 0xD1, 0x97,
      0x20, 0xD0, 0xBF, 0xD0, 0xBE, 0xD1, 0x88, 0xD1, 0x82, 0xD0, 0xB8 :: nat]"

definition invalid_email_token :: exn where
  "invalid_email_token = HTTPException 422 invalid_email_token_detail []"

definition get_email_from_token :: "Settings \<Rightarrow> int \<Rightarrow> token \<Rightarrow> exn + jvalue" where
  "get_email_from_token settings now token =
     (case jwt_decode token (JWT_SECRET settings) [JWT_ALGORITHM settings] now of
        Inl jwt_err \<Rightarrow> Inl invalid_email_token
      | Inr payload \<Rightarrow>
          (case map_of payload ''sub'' of
             None \<Rightarrow> Inl (KeyError ''sub'')
           | Some email' \<Rightarrow> Inr email'))"

subsection \<open>Concrete settings and claims for the worked examples\<close>

definition settings0 :: Settings where
  "settings0 = \<lparr>JWT_SECRET = ''secret'', JWT_ALGORITHM = ''HS256'',
                JWT_EXPIRATION_SECONDS = 3600\<rparr>"

definition alice_claims :: dict where
  "alice_claims = [(''sub'', JStr ''alice'')]"

section \<open>The credential hasher (class Hash of src/services/auth.py)\<close>

text \<open>
  Modelled from the spec: the \<open>CryptContext\<close> behind \<open>Hash.pwd_context\<close> belongs to the
  password-hashing library the source imports and is not among the sources. Section 4.1:
  \<open>hash(password) -> hash_string\<close> is a one-way hash in a fixed format with a
  non-deterministic salt; \<open>verify(plain, hash) -> bool\<close> is true iff the plain text, hashed
  with the salt and parameters embedded in the hash, equals the hash, and it never throws
  on a mismatch but returns false. The salt the library draws is a parameter. The digest
  is symbolic: it records the salt and the plain text it was computed from, so two digests
  agree exactly when both of these agree. A hash string carries its salt next to the
  digest; a string that is not in the hash format is \<open>Unrecognised\<close>.
\<close>

datatype digest = Digest string string

datatype hash_string =
    HashString (embedded_salt: string) (embedded_digest: digest)
  | Unrecognised string

definition pwd_context_hash :: "string \<Rightarrow> string \<Rightarrow> hash_string" where
  "pwd_context_hash salt password = HashString salt (Digest salt password)"

fun pwd_context_verify :: "string \<Rightarrow> hash_string \<Rightarrow> bool" where
  "pwd_context_verify plain (HashString salt d) =
     (pwd_context_hash salt plain = HashString salt d)"
| "pwd_context_verify plain (Unrecognised s) = False"

text \<open>The two methods of \<open>Hash\<close> hand their arguments to the context and return its answer.\<close>

definition verify_password :: "string \<Rightarrow> hash_string \<Rightarrow> bool" where
  "verify_password plain_password hashed_password =
     pwd_context_verify plain_password hashed_password"

definition get_password_hash :: "string \<Rightarrow> string \<Rightarrow> hash_string" where
  "get_password_hash salt password = pwd_context_hash salt password"

section \<open>Properties of the contact service\<close>

subsection \<open>Supporting lemmas\<close>

lemma create_contact_cases:
  "create_contact R body user db =
     (if fst (is_contact_exists R (email body) (phone body) user db)
      then (Inl (DuplicateContact body), snd (is_contact_exists R (email body) (phone body) user db))
      else map_prod Inr id (repo_create_contact R body user (snd (is_contact_exists R (email body) (phone body) user db))))"
  by (simp add: create_contact_def split: prod.splits)

lemma table_repository_sel:
  "is_contact_exists table_repository = table_is_contact_exists"
  "repo_create_contact table_repository = table_create_contact"
  "get_contact_by_id table_repository = table_get_contact_by_id"
  "repo_update_contact table_repository = table_update_contact"
  "repo_remove_contact table_repository = table_remove_contact"
  by (simp_all add: table_repository_def)

lemma table_create_contact_result:
  "create_contact table_repository body user tb =
     (if fst (table_is_contact_exists (email body) (phone body) user tb)
      then (Inl (DuplicateContact body), tb)
      else (Inr (make_contact body (next_id tb) (uid user)),
            tb @ [make_contact body (next_id tb) (uid user)]))"
  by (simp add: create_contact_cases table_repository_sel table_is_contact_exists_def
      table_create_contact_def Let_def)

lemma exists_after_create:
  "fst (table_is_contact_exists (email body) (phone body) user
          (snd (create_contact table_repository body user tb)))"
  by (simp add: table_create_contact_result)
     (simp add: table_is_contact_exists_def owned_by_def make_contact_def)

lemma other_user_unaffected:
  "uid other \<noteq> uid user \<Longrightarrow>
   fst (table_is_contact_exists e p other (snd (create_contact table_repository body user tb)))
     = fst (table_is_contact_exists e p other tb)"
  by (simp add: table_create_contact_result)
     (simp add: table_is_contact_exists_def owned_by_def make_contact_def)

lemma alice_bob_facts:
  "uid bob \<noteq> uid alice"
  "\<not> fst (table_is_contact_exists (email body_a111) (phone body_a111) bob [])"
  "\<not> fst (is_contact_exists table_repository (email body_a111) (phone body_a111) alice [])"
  "fst (is_contact_exists table_repository (email body_a222) (phone body_a222) alice [contact_a111])"
  by (simp_all add: table_repository_sel table_is_contact_exists_def alice_def bob_def
      contact_a111_def make_contact_def body_a111_def body_a222_def owned_by_def)

lemma table_lookups:
  "fst (get_contact_by_id table_repository 1 alice [contact_a111]) = Some contact_a111"
  "fst (get_contact_by_id table_repository 1 bob [contact_a111]) = None"
  "fst (repo_update_contact table_repository 1 body_a222 alice [contact_a111])
     = Some (make_contact body_a222 1 1)"
  "fst (repo_update_contact table_repository 7 body_a222 alice [contact_a111]) = None"
  "fst (repo_remove_contact table_repository 1 alice [contact_a111]) = Some contact_a111"
  "fst (repo_remove_contact table_repository 1 bob [contact_a111]) = None"
  by (simp_all add: table_repository_sel table_get_contact_by_id_def table_update_contact_def
      table_remove_contact_def owned_by_def alice_def bob_def contact_a111_def make_contact_def
      Let_def)

subsection \<open>Duplicate check on create\<close>

text \<open>
  C2. For every repository, body, user and session state, \<open>create_contact\<close> raises exactly
  when the repository's \<open>is_contact_exists\<close> reports a contact with the body's email or
  phone for that user, and what it raises is \<open>DuplicateContact\<close>: an \<open>HTTPException\<close>
  with status code 400 whose detail message spells out the body's email and phone;
  otherwise it returns what the repository's create returns, with
  the state that call leaves. Over the table repository, a second create of the same body
  by the same user is refused, and the same body (so the same email) for another user, who
  has no such contact, is created.
\<close>

theorem create_contact_duplicate_or_delegate:
  "(\<exists>e. fst (create_contact R body user db) = Inl e)
      = fst (is_contact_exists R (email body) (phone body) user db)
   \<and> (fst (is_contact_exists R (email body) (phone body) user db) \<longrightarrow>
        fst (create_contact R body user db) = Inl (DuplicateContact body))
   \<and> (fst (is_contact_exists R (email body) (phone body) user db) \<longrightarrow>
        fst (create_contact R body user db) =
          Inl (HTTPException 400
                 (''Contact with '' @ [CHR 0x27] @ email body @ [CHR 0x27] @ '' email or '' @
                  [CHR 0x27] @ phone body @ [CHR 0x27] @ '' phone number already exists.'') []))
   \<and> (\<forall>e. fst (create_contact R body user db) = Inl e \<longrightarrow>
          status_code e = 400
          \<and> detail e =
              ''Contact with '' @ [CHR 0x27] @ email body @ [CHR 0x27] @ '' email or '' @
              [CHR 0x27] @ phone body @ [CHR 0x27] @ '' phone number already exists.'')
   \<and> (\<not> fst (is_contact_exists R (email body) (phone body) user db) \<longrightarrow>
        create_contact R body user db =
          map_prod Inr id (repo_create_contact R body user
            (snd (is_contact_exists R (email body) (phone body) user db))))
   \<and> fst (create_contact table_repository body user
            (snd (create_contact table_repository body user tb))) = Inl (DuplicateContact body)
   \<and> (uid other \<noteq> uid user
        \<and> \<not> fst (table_is_contact_exists (email body) (phone body) other tb) \<longrightarrow>
        (\<exists>c. fst (create_contact table_repository body other
                 (snd (create_contact table_repository body user tb))) = Inr c
             \<and> email c = email body \<and> user_id c = uid other))"
proof -
  let ?found = "fst (is_contact_exists R (email body) (phone body) user db)"
  let ?detail = "''Contact with '' @ [CHR 0x27] @ email body @ [CHR 0x27] @ '' email or '' @
                 [CHR 0x27] @ phone body @ [CHR 0x27] @ '' phone number already exists.''"
  have a: "(\<exists>e. fst (create_contact R body user db) = Inl e) = ?found"
    by (cases "repo_create_contact R body user
          (snd (is_contact_exists R (email body) (phone body) user db))")
       (simp add: create_contact_cases)
  have b: "?found \<longrightarrow> fst (create_contact R body user db) = Inl (DuplicateContact body)"
    by (simp add: create_contact_cases)
  have b': "?found \<longrightarrow> fst (create_contact R body user db) = Inl (HTTPException 400 ?detail [])"
    by (simp add: create_contact_cases DuplicateContact_def duplicate_detail_def)
  have b'': "\<forall>e. fst (create_contact R body user db) = Inl e \<longrightarrow>
               status_code e = 400 \<and> detail e = ?detail"
    by (cases "repo_create_contact R body user
          (snd (is_contact_exists R (email body) (phone body) user db))")
       (auto simp: create_contact_cases DuplicateContact_def duplicate_detail_def
             split: if_splits)
  have c: "\<not> ?found \<longrightarrow> create_contact R body user db =
          map_prod Inr id (repo_create_contact R body user
            (snd (is_contact_exists R (email body) (phone body) user db)))"
    by (simp add: create_contact_cases)
  have d: "fst (create_contact table_repository body user
            (snd (create_contact table_repository body user tb))) = Inl (DuplicateContact body)"
    using exists_after_create [of body user tb]
    by (simp add: create_contact_cases table_repository_sel)
  have e: "uid other \<noteq> uid user
        \<and> \<not> fst (table_is_contact_exists (email body) (phone body) other tb) \<longrightarrow>
        (\<exists>c. fst (create_contact table_repository body other
                 (snd (create_contact table_repository body user tb))) = Inr c
             \<and> email c = email body \<and> user_id c = uid other)"
  proof
    assume h: "uid other \<noteq> uid user
        \<and> \<not> fst (table_is_contact_exists (email body) (phone body) other tb)"
    let ?tb1 = "snd (create_contact table_repository body user tb)"
    from h have "\<not> fst (table_is_contact_exists (email body) (phone body) other ?tb1)"
      by (simp add: other_user_unaffected)
    then have "fst (create_contact table_repository body other ?tb1)
                 = Inr (make_contact body (next_id ?tb1) (uid other))"
      by (simp add: table_create_contact_result [of body other])
    then show "\<exists>c. fst (create_contact table_repository body other ?tb1) = Inr c
             \<and> email c = email body \<and> user_id c = uid other"
      by (simp add: make_contact_def)
  qed
  from a b b' b'' c d e show ?thesis by blast
qed
theorem create_contact_duplicate_or_delegate_witness:
  "\<not> fst (is_contact_exists table_repository (email body_a111) (phone body_a111) alice [])
   \<and> create_contact table_repository body_a111 alice [] = (Inr contact_a111, [contact_a111])
   \<and> fst (is_contact_exists table_repository (email body_a222) (phone body_a222) alice [contact_a111])
   \<and> fst (create_contact table_repository body_a222 alice [contact_a111]) = Inl (DuplicateContact body_a222)
   \<and> fst (create_contact table_repository body_a222 alice [contact_a111]) =
       Inl (HTTPException 400
              (''Contact with '' @ [CHR 0x27] @ ''a@x.com'' @ [CHR 0x27] @ '' email or '' @
               [CHR 0x27] @ ''222'' @ [CHR 0x27] @ '' phone number already exists.'') [])
   \<and> uid bob \<noteq> uid alice
   \<and> \<not> fst (table_is_contact_exists (email body_a111) (phone body_a111) bob [])
   \<and> (\<exists>c. fst (create_contact table_repository body_a111 bob
                 (snd (create_contact table_repository body_a111 alice []))) = Inr c
             \<and> email c = email body_a111 \<and> user_id c = uid bob)"
proof -
  note first = create_contact_duplicate_or_delegate
                 [of table_repository body_a111 alice "[]" "[]" bob]
  note second = create_contact_duplicate_or_delegate
                 [of table_repository body_a222 alice "[contact_a111]" "[]" bob]
  have "create_contact table_repository body_a111 alice [] =
          map_prod Inr id (repo_create_contact table_repository body_a111 alice
            (snd (is_contact_exists table_repository (email body_a111) (phone body_a111) alice [])))"
    using first alice_bob_facts(3) by blast
  then have created: "create_contact table_repository body_a111 alice []
                        = (Inr contact_a111, [contact_a111])"
    by (simp add: table_repository_sel table_is_contact_exists_def table_create_contact_def
          next_id_def contact_a111_def Let_def)
       (simp add: alice_def)
  have refused: "fst (create_contact table_repository body_a222 alice [contact_a111])
                   = Inl (DuplicateContact body_a222)"
    using second alice_bob_facts(4) by blast
  have "fst (create_contact table_repository body_a222 alice [contact_a111]) =
          Inl (HTTPException 400
                 (''Contact with '' @ [CHR 0x27] @ email body_a222 @ [CHR 0x27] @ '' email or '' @
                  [CHR 0x27] @ phone body_a222 @ [CHR 0x27] @ '' phone number already exists.'') [])"
    using second alice_bob_facts(4) by blast
  then have refused400: "fst (create_contact table_repository body_a222 alice [contact_a111]) =
       Inl (HTTPException 400
              (''Contact with '' @ [CHR 0x27] @ ''a@x.com'' @ [CHR 0x27] @ '' email or '' @
               [CHR 0x27] @ ''222'' @ [CHR 0x27] @ '' phone number already exists.'') [])"
    by (simp add: body_a222_def body_a111_def)
  have other: "\<exists>c. fst (create_contact table_repository body_a111 bob
                 (snd (create_contact table_repository body_a111 alice []))) = Inr c
             \<and> email c = email body_a111 \<and> user_id c = uid bob"
    using first alice_bob_facts(1,2) by blast
  from created refused refused400 other alice_bob_facts show ?thesis by blast
qed
subsection \<open>Not-found on get, update and remove\<close>

text \<open>
  C3. For every repository, contact id, body, user and session state, each of
  \<open>get_contact\<close>, \<open>update_contact\<close> and \<open>remove_contact\<close> raises
  \<open>ContactNotFound\<close>, the \<open>HTTPException\<close> with status code 404 and detail
  "Contact not found", if and only if the repository call it makes returns \<open>None\<close>; it
  raises nothing else, and when the repository returns a contact it returns exactly that
  contact.
\<close>

theorem contact_not_found_iff_repository_none:
  "(fst (get_contact R cid user db) = Inl ContactNotFound)
      = (fst (get_contact_by_id R cid user db) = None)
   \<and> (fst (update_contact R cid body user db) = Inl ContactNotFound)
      = (fst (repo_update_contact R cid body user db) = None)
   \<and> (fst (remove_contact R cid user db) = Inl ContactNotFound)
      = (fst (repo_remove_contact R cid user db) = None)
   \<and> (fst (get_contact R cid user db) = Inl (HTTPException 404 ''Contact not found'' []))
      = (fst (get_contact_by_id R cid user db) = None)
   \<and> (fst (update_contact R cid body user db) = Inl (HTTPException 404 ''Contact not found'' []))
      = (fst (repo_update_contact R cid body user db) = None)
   \<and> (fst (remove_contact R cid user db) = Inl (HTTPException 404 ''Contact not found'' []))
      = (fst (repo_remove_contact R cid user db) = None)
   \<and> (\<forall>e. fst (get_contact R cid user db) = Inl e
            \<or> fst (update_contact R cid body user db) = Inl e
            \<or> fst (remove_contact R cid user db) = Inl e \<longrightarrow>
          status_code e = 404 \<and> detail e = ''Contact not found'')
   \<and> (\<forall>c. fst (get_contact_by_id R cid user db) = Some c \<longrightarrow>
          fst (get_contact R cid user db) = Inr c)
   \<and> (\<forall>c. fst (repo_update_contact R cid body user db) = Some c \<longrightarrow>
          fst (update_contact R cid body user db) = Inr c)
   \<and> (\<forall>c. fst (repo_remove_contact R cid user db) = Some c \<longrightarrow>
          fst (remove_contact R cid user db) = Inr c)"
proof -
  have g: "fst (get_contact R cid user db) =
             (case fst (get_contact_by_id R cid user db) of
                None \<Rightarrow> Inl ContactNotFound | Some c \<Rightarrow> Inr c)"
    by (simp add: get_contact_def split: prod.splits option.splits)
  have u: "fst (update_contact R cid body user db) =
             (case fst (repo_update_contact R cid body user db) of
                None \<Rightarrow> Inl ContactNotFound | Some c \<Rightarrow> Inr c)"
    by (simp add: update_contact_def split: prod.splits option.splits)
  have r: "fst (remove_contact R cid user db) =
             (case fst (repo_remove_contact R cid user db) of
                None \<Rightarrow> Inl ContactNotFound | Some c \<Rightarrow> Inr c)"
    by (simp add: remove_contact_def split: prod.splits option.splits)
  have nf: "ContactNotFound = HTTPException 404 ''Contact not found'' []"
    by (simp add: ContactNotFound_def)
  show ?thesis
    unfolding g u r nf by (auto split: option.splits)
qed
theorem contact_not_found_iff_repository_none_witness:
  "fst (get_contact_by_id table_repository 1 alice [contact_a111]) = Some contact_a111
   \<and> fst (get_contact table_repository 1 alice [contact_a111]) = Inr contact_a111
   \<and> fst (get_contact_by_id table_repository 1 bob [contact_a111]) = None
   \<and> fst (get_contact table_repository 1 bob [contact_a111]) = Inl ContactNotFound
   \<and> fst (get_contact table_repository 1 bob [contact_a111])
       = Inl (HTTPException 404 ''Contact not found'' [])
   \<and> fst (update_contact table_repository 1 body_a222 alice [contact_a111])
       = Inr (make_contact body_a222 1 1)
   \<and> fst (update_contact table_repository 7 body_a222 alice [contact_a111]) = Inl ContactNotFound
   \<and> fst (update_contact table_repository 7 body_a222 alice [contact_a111])
       = Inl (HTTPException 404 ''Contact not found'' [])
   \<and> fst (remove_contact table_repository 1 alice [contact_a111]) = Inr contact_a111
   \<and> fst (remove_contact table_repository 1 bob [contact_a111]) = Inl ContactNotFound
   \<and> fst (remove_contact table_repository 1 bob [contact_a111])
       = Inl (HTTPException 404 ''Contact not found'' [])"
proof -
  note own = contact_not_found_iff_repository_none
               [of table_repository 1 alice "[contact_a111]" body_a222]
  note foreign = contact_not_found_iff_repository_none
               [of table_repository 1 bob "[contact_a111]" body_a222]
  note missing = contact_not_found_iff_repository_none
               [of table_repository 7 alice "[contact_a111]" body_a222]
  have g1: "fst (get_contact table_repository 1 alice [contact_a111]) = Inr contact_a111"
    using own table_lookups(1) by blast
  have g2: "fst (get_contact table_repository 1 bob [contact_a111]) = Inl ContactNotFound"
    using foreign table_lookups(2) by blast
  have g3: "fst (get_contact table_repository 1 bob [contact_a111])
              = Inl (HTTPException 404 ''Contact not found'' [])"
    using foreign table_lookups(2) by blast
  have u1: "fst (update_contact table_repository 1 body_a222 alice [contact_a111])
              = Inr (make_contact body_a222 1 1)"
    using own table_lookups(3) by blast
  have u2: "fst (update_contact table_repository 7 body_a222 alice [contact_a111])
              = Inl ContactNotFound"
    using missing table_lookups(4) by blast
  have u3: "fst (update_contact table_repository 7 body_a222 alice [contact_a111])
              = Inl (HTTPException 404 ''Contact not found'' [])"
    using missing table_lookups(4) by blast
  have r1: "fst (remove_contact table_repository 1 alice [contact_a111]) = Inr contact_a111"
    using own table_lookups(5) by blast
  have r2: "fst (remove_contact table_repository 1 bob [contact_a111]) = Inl ContactNotFound"
    using foreign table_lookups(6) by blast
  have r3: "fst (remove_contact table_repository 1 bob [contact_a111])
              = Inl (HTTPException 404 ''Contact not found'' [])"
    using foreign table_lookups(6) by blast
  show ?thesis
    using table_lookups(1,2) g1 g2 g3 u1 u2 u3 r1 r2 r3 by (intro conjI)
qed
text \<open>
  C10. When the duplicate check reports an existing contact, \<open>create_contact\<close> raises
  \<open>DuplicateContact\<close> and the session state is the one the check left: this holds
  whatever function \<open>f\<close> stands for the repository's create, so that function is not
  called. Over the table repository the check reads only, and the table is unchanged.
\<close>

theorem duplicate_contact_leaves_store_untouched:
  "(fst (is_contact_exists R (email body) (phone body) user db) \<longrightarrow>
      create_contact (R\<lparr>repo_create_contact := f\<rparr>) body user db
        = (Inl (DuplicateContact body),
           snd (is_contact_exists R (email body) (phone body) user db)))
   \<and> (fst (table_is_contact_exists (email body) (phone body) user tb) \<longrightarrow>
      create_contact table_repository body user tb = (Inl (DuplicateContact body), tb))"
proof
  show "fst (is_contact_exists R (email body) (phone body) user db) \<longrightarrow>
      create_contact (R\<lparr>repo_create_contact := f\<rparr>) body user db
        = (Inl (DuplicateContact body),
           snd (is_contact_exists R (email body) (phone body) user db))"
    by (simp add: create_contact_cases)
  show "fst (table_is_contact_exists (email body) (phone body) user tb) \<longrightarrow>
      create_contact table_repository body user tb = (Inl (DuplicateContact body), tb)"
    by (simp add: table_create_contact_result)
qed

theorem duplicate_contact_leaves_store_untouched_witness:
  "fst (is_contact_exists table_repository (email body_a222) (phone body_a222) alice [contact_a111])
   \<and> create_contact (table_repository\<lparr>repo_create_contact := wipe_and_create\<rparr>)
        body_a222 alice [contact_a111]
       = (Inl (DuplicateContact body_a222), [contact_a111])
   \<and> create_contact table_repository body_a222 alice [contact_a111]
       = (Inl (DuplicateContact body_a222), [contact_a111])"
proof -
  note t = duplicate_contact_leaves_store_untouched
             [of table_repository body_a222 alice "[contact_a111]" wipe_and_create "[contact_a111]"]
  have found: "fst (is_contact_exists table_repository (email body_a222) (phone body_a222)
                      alice [contact_a111])"
    by (rule alice_bob_facts(4))
  have same: "snd (is_contact_exists table_repository (email body_a222) (phone body_a222)
                      alice [contact_a111]) = [contact_a111]"
    by (simp add: table_repository_sel table_is_contact_exists_def)
  from t found same show ?thesis
    by (simp add: table_repository_sel)
qed

section \<open>Properties of the token service and the auth gate\<close>

subsection \<open>Supporting lemmas\<close>

lemma create_access_token_unfold:
  "create_access_token settings now data expires_delta h =
     (let expire = (if truthy expires_delta then now + the expires_delta
                    else now + JWT_EXPIRATION_SECONDS settings);
          payload = AList.update ''exp'' (JInt expire) (h ! data)
      in (jwt_encode payload (JWT_SECRET settings) (JWT_ALGORITHM settings), h @ [payload]))"
  by (simp add: create_access_token_def dict_copy_def dict_update_def Let_def
      timedelta_seconds_def)

lemma create_email_token_unfold:
  "create_email_token settings now_expire now_iat data h =
     (let payload = AList.update ''exp'' (JInt (now_expire + 604800))
                      (AList.update ''iat'' (JInt now_iat) (h ! data))
      in (jwt_encode payload (JWT_SECRET settings) (JWT_ALGORITHM settings), h @ [payload]))"
  by (simp add: create_email_token_def dict_copy_def dict_update_def Let_def
      timedelta_days_def)

lemma jwt_claims_encode: "jwt_claims (jwt_encode claims key alg) = claims"
  by (simp add: jwt_encode_def)

lemma jwt_decode_encode:
  "jwt_decode (jwt_encode claims key alg) key [alg] now =
     (case map_of claims ''exp'' of
        None \<Rightarrow> Inr claims
      | Some (JInt e) \<Rightarrow> if e < now then Inl ExpiredSignature else Inr claims
      | Some _ \<Rightarrow> Inl InvalidClaims)"
  by (simp add: jwt_encode_def)

lemma access_token_claims:
  "jwt_claims (fst (create_access_token settings now data expires_delta h)) =
     AList.update ''exp''
       (JInt (if truthy expires_delta then now + the expires_delta
              else now + JWT_EXPIRATION_SECONDS settings)) (h ! data)"
  by (simp add: create_access_token_unfold Let_def jwt_claims_encode)

lemma email_token_claims:
  "jwt_claims (fst (create_email_token settings now_expire now_iat data h)) =
     AList.update ''exp'' (JInt (now_expire + 604800))
       (AList.update ''iat'' (JInt now_iat) (h ! data))"
  by (simp add: create_email_token_unfold Let_def jwt_claims_encode)

text \<open>
  What the access-token issuer does in general: a ttl that is given and not zero is used,
  and a token issued with it decodes up to its expiry and not after.
\<close>

lemma access_token_exp:
  "map_of (jwt_claims (fst (create_access_token settings now data expires_delta h))) ''exp'' =
     Some (JInt (case expires_delta of
                   None \<Rightarrow> now + JWT_EXPIRATION_SECONDS settings
                 | Some ttl \<Rightarrow> if ttl = 0 then now + JWT_EXPIRATION_SECONDS settings
                               else now + ttl))"
  by (cases expires_delta) (simp_all add: access_token_claims update_conv')

lemma access_token_round_trip:
  assumes "ttl \<noteq> 0"
  shows "jwt_decode (fst (create_access_token settings issued data (Some ttl) h))
           (JWT_SECRET settings) [JWT_ALGORITHM settings] now =
         (if issued + ttl < now then Inl ExpiredSignature
          else Inr (AList.update ''exp'' (JInt (issued + ttl)) (h ! data)))"
  using assms
  by (simp add: create_access_token_unfold Let_def jwt_decode_encode update_conv')

text \<open>When both clock readings of \<open>create_email_token\<close> agree, expiry is 7 days after issue.\<close>

lemma email_token_same_reading:
  "map_of (jwt_claims (fst (create_email_token settings t t data h))) ''iat'' = Some (JInt t)
   \<and> map_of (jwt_claims (fst (create_email_token settings t t data h))) ''exp''
       = Some (JInt (t + timedelta_days 7))"
  by (simp add: email_token_claims update_conv' timedelta_days_def)

text \<open>
  The gate and the email-token reader on a token that fails to decode, on an unknown
  subject, and on the good path.
\<close>

lemma get_current_user_rejects:
  "jwt_decode token (JWT_SECRET settings) [JWT_ALGORITHM settings] now = Inl e \<Longrightarrow>
     get_current_user settings now dir token = Inl credentials_exception"
  "jwt_decode token (JWT_SECRET settings) [JWT_ALGORITHM settings] now = Inr payload \<Longrightarrow>
   map_of payload ''sub'' = Some v \<Longrightarrow> dir v = None \<Longrightarrow>
     get_current_user settings now dir token = Inl credentials_exception"
  "jwt_decode token (JWT_SECRET settings) [JWT_ALGORITHM settings] now = Inr payload \<Longrightarrow>
   map_of payload ''sub'' = Some v \<Longrightarrow> v \<noteq> JNull \<Longrightarrow> dir v = Some u \<Longrightarrow>
     get_current_user settings now dir token = Inr u"
  by (simp_all add: get_current_user_def)

lemma get_email_from_token_decoded:
  "jwt_decode token (JWT_SECRET settings) [JWT_ALGORITHM settings] now = Inl e \<Longrightarrow>
     get_email_from_token settings now token = Inl invalid_email_token"
  "jwt_decode token (JWT_SECRET settings) [JWT_ALGORITHM settings] now = Inr payload \<Longrightarrow>
   map_of payload ''sub'' = Some v \<Longrightarrow>
     get_email_from_token settings now token = Inr v"
  by (simp_all add: get_email_from_token_def)

subsection \<open>The auth gate on a token without a subject\<close>

text \<open>
  C1. The claim: in each failure case, a payload without \<open>sub\<close> among them, the gate
  fails with the 401 credentials exception and no other error. In the source the subject
  is read by \<open>payload["sub"]\<close>: for the token that \<open>create_access_token\<close> issues over an
  empty claims dictionary, correctly signed and not expired, the gate raises
  \<open>KeyError\<close>, which is not the credentials exception.
\<close>

theorem get_current_user_key_error_without_sub:
  "get_current_user settings0 1000 (users_by_username [alice, bob])
     (fst (create_access_token settings0 1000 0 None [[]])) = Inl (KeyError ''sub'')
   \<and> (Inl (KeyError ''sub'') :: exn + User) \<noteq> Inl credentials_exception"
  by (simp add: get_current_user_def create_access_token_unfold Let_def jwt_decode_encode
      settings0_def credentials_exception_def)

subsection \<open>The email-token reader on a token without a subject\<close>

text \<open>
  C4. The claim: an absent subject claim gives the 422 exception. For the token that
  \<open>create_email_token\<close> issues over an empty claims dictionary, which decodes,
  \<open>get_email_from_token\<close> raises \<open>KeyError\<close>, which is not the 422 exception.
\<close>

theorem get_email_from_token_key_error_without_sub:
  "get_email_from_token settings0 1000 (fst (create_email_token settings0 1000 1000 0 [[]]))
     = Inl (KeyError ''sub'')
   \<and> (Inl (KeyError ''sub'') :: exn + jvalue) \<noteq> Inl invalid_email_token"
  by (simp add: get_email_from_token_def create_email_token_unfold Let_def jwt_decode_encode
      settings0_def invalid_email_token_def)

subsection \<open>The expiry of an access token issued with ttl 0\<close>

text \<open>
  C5. The claim: a supplied ttl, 0 included, gives \<open>exp = now + ttl\<close>. Issued at clock
  reading 1000 with \<open>expires_delta = 0\<close> and a configured default of 3600 seconds, the
  token's \<open>exp\<close> is 1000 plus the default, not 1000 plus 0.
\<close>

theorem create_access_token_zero_ttl_uses_default:
  "map_of (jwt_claims (fst (create_access_token settings0 1000 0 (Some 0) [alice_claims]))) ''exp''
     = Some (JInt (1000 + JWT_EXPIRATION_SECONDS settings0))
   \<and> map_of (jwt_claims (fst (create_access_token settings0 1000 0 (Some 0) [alice_claims]))) ''exp''
     \<noteq> Some (JInt (1000 + timedelta_seconds 0))"
  by (simp add: access_token_claims update_conv' settings0_def timedelta_seconds_def)

subsection \<open>Issued-at and expiry of an email token across a clock tick\<close>

text \<open>
  C6. The claim: \<open>exp - iat\<close> is exactly 7 days. When the clock moves on by one second
  between the two readings the source makes, the token carries the later reading as
  \<open>iat\<close> and the earlier one plus 7 days as \<open>exp\<close>: their difference is one second short
  of 7 days.
\<close>

theorem create_email_token_clock_tick:
  "map_of (jwt_claims (fst (create_email_token settings0 1700000000 1700000001 0 [alice_claims])))
      ''iat'' = Some (JInt 1700000001)
   \<and> map_of (jwt_claims (fst (create_email_token settings0 1700000000 1700000001 0 [alice_claims])))
      ''exp'' = Some (JInt 1700604800)
   \<and> (1700604800 :: int) - 1700000001 \<noteq> timedelta_days 7"
  by (simp add: email_token_claims update_conv' timedelta_days_def)

subsection \<open>Decoding an access token issued with ttl 0\<close>

text \<open>
  C7. The claim: a token issued with ttl \<open>T\<close> fails to decode once more than \<open>T\<close> seconds
  have passed. Issued at clock reading 1000 with ttl 0, the token decodes at clock reading
  1001, same secret and algorithm, to the claims plus an \<open>exp\<close> of 4600.
\<close>

theorem zero_ttl_token_decodes_after_issue:
  "jwt_decode (fst (create_access_token settings0 1000 0 (Some 0) [alice_claims]))
     (JWT_SECRET settings0) [JWT_ALGORITHM settings0] 1001
     = Inr [(''sub'', JStr ''alice''), (''exp'', JInt 4600)]
   \<and> (1000 :: int) + timedelta_seconds 0 < 1001"
  by (simp add: create_access_token_unfold Let_def jwt_decode_encode settings0_def
      alice_claims_def timedelta_seconds_def)

subsection \<open>The caller's dictionary is left alone\<close>

text \<open>
  C9. For every store \<open>h\<close> and every reference \<open>data\<close> into it, \<open>create_access_token\<close>
  and \<open>create_email_token\<close> leave every object of \<open>h\<close>, the caller's dictionary among
  them, as it was (they only add the copy), and every key other than \<open>exp\<close> and \<open>iat\<close>
  has in the token's payload the value it has in the caller's dictionary, or is absent
  from both.
\<close>

theorem token_issue_frame:
  assumes "data < length h" and "k \<noteq> ''exp''" and "k \<noteq> ''iat''"
  shows "take (length h) (snd (create_access_token settings now data expires_delta h)) = h
   \<and> snd (create_access_token settings now data expires_delta h) ! data = h ! data
   \<and> take (length h) (snd (create_email_token settings now_expire now_iat data h)) = h
   \<and> snd (create_email_token settings now_expire now_iat data h) ! data = h ! data
   \<and> map_of (jwt_claims (fst (create_access_token settings now data expires_delta h))) k
       = map_of (h ! data) k
   \<and> map_of (jwt_claims (fst (create_email_token settings now_expire now_iat data h))) k
       = map_of (h ! data) k"
  using assms
  by (simp add: create_access_token_unfold create_email_token_unfold Let_def jwt_claims_encode
      update_conv' nth_append)

theorem token_issue_frame_witness:
  "(0::nat) < length [alice_claims] \<and> ''sub'' \<noteq> ''exp'' \<and> ''sub'' \<noteq> ''iat''
   \<and> snd (create_access_token settings0 1000 0 (Some 60) [alice_claims]) ! 0 = alice_claims
   \<and> snd (create_email_token settings0 1000 1000 0 [alice_claims]) ! 0 = alice_claims
   \<and> map_of (jwt_claims (fst (create_access_token settings0 1000 0 (Some 60) [alice_claims]))) ''sub''
       = Some (JStr ''alice'')
   \<and> map_of (jwt_claims (fst (create_email_token settings0 1000 1000 0 [alice_claims]))) ''sub''
       = Some (JStr ''alice'')"
  using token_issue_frame [of 0 "[alice_claims]" "''sub''" settings0 1000 "Some 60" 1000 1000]
  by (simp add: alice_claims_def)

section \<open>Properties of the credential hasher\<close>

lemma verify_password_iff:
  "verify_password plain h = (\<exists>salt. h = get_password_hash salt plain)"
  by (cases h) (auto simp: verify_password_def get_password_hash_def pwd_context_hash_def)

text \<open>
  C8. For every password and every salt the library may draw,
  \<open>verify_password(password, get_password_hash(password))\<close> is true. For a plain text
  other than the password it is false. For a mutated hash it is false: one whose embedded
  salt was changed, one whose digest was changed, a string that is no hash at all, and in
  general every hash string that the hasher returns for this password under no salt.
  \<open>verify_password\<close> is a total function into \<open>bool\<close>: in none of these cases is there
  an error.
\<close>

theorem password_hash_round_trip:
  "verify_password password (get_password_hash salt password)
   \<and> (plain \<noteq> password \<longrightarrow> \<not> verify_password plain (get_password_hash salt password))
   \<and> (salt' \<noteq> salt \<longrightarrow> \<not> verify_password password (HashString salt' (Digest salt password)))
   \<and> (d \<noteq> Digest salt password \<longrightarrow> \<not> verify_password password (HashString salt d))
   \<and> \<not> verify_password password (Unrecognised x)
   \<and> ((\<forall>s. h \<noteq> get_password_hash s password) \<longrightarrow> \<not> verify_password password h)"
proof -
  have hit: "verify_password password (get_password_hash salt password)"
    by (simp add: verify_password_def get_password_hash_def pwd_context_hash_def)
  have plain: "plain \<noteq> password \<longrightarrow> \<not> verify_password plain (get_password_hash salt password)"
    by (simp add: verify_password_def get_password_hash_def pwd_context_hash_def)
  have salt: "salt' \<noteq> salt \<longrightarrow>
                \<not> verify_password password (HashString salt' (Digest salt password))"
    by (simp add: verify_password_def pwd_context_hash_def)
  have dig: "d \<noteq> Digest salt password \<longrightarrow> \<not> verify_password password (HashString salt d)"
    by (auto simp: verify_password_def pwd_context_hash_def)
  have unrec: "\<not> verify_password password (Unrecognised x)"
    by (simp add: verify_password_def)
  have other: "(\<forall>s. h \<noteq> get_password_hash s password) \<longrightarrow> \<not> verify_password password h"
    by (simp add: verify_password_iff)
  from hit plain salt dig unrec other show ?thesis by blast
qed

theorem password_hash_round_trip_witness:
  "verify_password ''hunter2'' (get_password_hash ''salt1'' ''hunter2'')
   \<and> ''hunter3'' \<noteq> ''hunter2''
   \<and> \<not> verify_password ''hunter3'' (get_password_hash ''salt1'' ''hunter2'')
   \<and> ''salt2'' \<noteq> ''salt1''
   \<and> \<not> verify_password ''hunter2'' (HashString ''salt2'' (Digest ''salt1'' ''hunter2''))
   \<and> Digest ''salt1'' ''hunter3'' \<noteq> Digest ''salt1'' ''hunter2''
   \<and> \<not> verify_password ''hunter2'' (HashString ''salt1'' (Digest ''salt1'' ''hunter3''))
   \<and> (\<forall>s. HashString ''salt1'' (Digest ''salt1'' ''hunter3'') \<noteq> get_password_hash s ''hunter2'')"
proof -
  note t = password_hash_round_trip
             [of "''hunter2''" "''salt1''" "''hunter3''" "''salt2''"
                 "Digest ''salt1'' ''hunter3''" "''''"
                 "HashString ''salt1'' (Digest ''salt1'' ''hunter3'')"]
  have a: "''hunter3'' \<noteq> ''hunter2''" by simp
  have b: "''salt2'' \<noteq> ''salt1''" by simp
  have c: "Digest ''salt1'' ''hunter3'' \<noteq> Digest ''salt1'' ''hunter2''" by simp
  have d: "\<forall>s. HashString ''salt1'' (Digest ''salt1'' ''hunter3'') \<noteq> get_password_hash s ''hunter2''"
    by (simp add: get_password_hash_def pwd_context_hash_def)
  from t a b c d show ?thesis by blast
qed

end
